theory Spec2Isabelle
  imports Main "HOL-Library.Sublist"
begin

section \<open>Go values shared by the package\<close>

text \<open>
  A Go \<open>error\<close> is modelled by the call that built it: \<open>errors.New(msg)\<close> and
  \<open>fmt.Errorf(format, args...)\<close>. The format string and its arguments are kept
  apart, so that the argument of a \<open>%q\<close> verb can be read back from the error.
\<close>

datatype error =
    New string
  | Errorf string "fmtarg list"
and fmtarg =
    Str string
  | Err error

section \<open>The type graph (wit/resolve.go)\<close>

text \<open>
  A pointer \<open>*TypeDef\<close> is the position of the type definition in
  \<open>Resolve.TypeDefs\<close>, a pointer to a \<open>World\<close> or an \<open>Interface\<close> its position in
  \<open>Resolve.Worlds\<close> or \<open>Resolve.Interfaces\<close>; a nil pointer or nil interface value
  is \<open>None\<close>.
\<close>

record Docs =
  Contents :: string

text \<open>
  The type argument \<open>T\<close> of \<open>_primitive[T]\<close>: the thirteen Go types of the
  constraint \<open>Primitive\<close>.
\<close>

datatype Primitive =
    go_bool | go_int8 | go_uint8 | go_int16 | go_uint16 | go_int32 | go_uint32
  | go_int64 | go_uint64 | go_float32 | go_float64 | go_char | go_string

text \<open>
  \<open>_primitive[T].TypeName\<close>: the type switch on the zero value of \<open>T\<close>. Its final
  \<open>return "<undefined>"\<close> is not reached for a \<open>T\<close> of the constraint.
\<close>

fun primitive_TypeName :: "Primitive \<Rightarrow> string" where
  "primitive_TypeName go_bool = ''bool''"
| "primitive_TypeName go_int8 = ''s8''"
| "primitive_TypeName go_uint8 = ''u8''"
| "primitive_TypeName go_int16 = ''s16''"
| "primitive_TypeName go_uint16 = ''u16''"
| "primitive_TypeName go_int32 = ''s32''"
| "primitive_TypeName go_uint32 = ''u32''"
| "primitive_TypeName go_int64 = ''s64''"
| "primitive_TypeName go_uint64 = ''u64''"
| "primitive_TypeName go_float32 = ''float32''"
| "primitive_TypeName go_float64 = ''float64''"
| "primitive_TypeName go_char = ''char''"
| "primitive_TypeName go_string = ''string''"

text \<open>
  The implementations of the interface \<open>Type\<close>: the thirteen primitive structs and
  \<open>*TypeDef\<close>.
\<close>

datatype Type =
    Bool | S8 | U8 | S16 | U16 | S32 | U32 | S64 | U64 | Float32 | Float64 | Char' | String
  | TypeDefRef nat

text \<open>\<open>type Bool struct{ _primitive[bool] }\<close> and its twelve siblings.\<close>

fun embedded_primitive :: "Type \<Rightarrow> Primitive option" where
  "embedded_primitive Bool = Some go_bool"
| "embedded_primitive S8 = Some go_int8"
| "embedded_primitive U8 = Some go_uint8"
| "embedded_primitive S16 = Some go_int16"
| "embedded_primitive U16 = Some go_uint16"
| "embedded_primitive S32 = Some go_int32"
| "embedded_primitive U32 = Some go_uint32"
| "embedded_primitive S64 = Some go_int64"
| "embedded_primitive U64 = Some go_uint64"
| "embedded_primitive Float32 = Some go_float32"
| "embedded_primitive Float64 = Some go_float64"
| "embedded_primitive Char' = Some go_char"
| "embedded_primitive String = Some go_string"
| "embedded_primitive (TypeDefRef _) = None"

record Field =
  Name :: string
  Type :: Type
  Docs :: Docs

record Flag =
  Name :: string
  Docs :: Docs

record Case =
  Name :: string
  Type :: "Type option"
  Docs :: Docs

record EnumCase =
  Name :: string
  Docs :: Docs

text \<open>The implementations of the interface \<open>TypeDefKind\<close>.\<close>

datatype TypeDefKind =
    Record "Field list"
  | Resource
  | OwnedHandle nat
  | BorrowedHandle nat
  | Flags "Flag list"
  | Tuple "Type list"
  | Variant "Case list"
  | Enum "EnumCase list"
  | Option Type
  | Result "Type option" "Type option"
  | List Type
  | Future "Type option"
  | Stream "Type option" "Type option"
  | TypeKind Type

text \<open>The implementations of the interface \<open>TypeOwner\<close>.\<close>

datatype TypeOwner =
    WorldOwner nat
  | InterfaceOwner nat

record TypeDef =
  Name :: "string option"
  Kind :: TypeDefKind
  Owner :: "TypeOwner option"
  Docs :: Docs

text \<open>\<open>(*TypeDef).TypeName\<close>.\<close>

definition TypeDef_TypeName :: "TypeDef \<Rightarrow> string" where
  "TypeDef_TypeName t = (case TypeDef.Name t of Some n \<Rightarrow> n | None \<Rightarrow> [])"

text \<open>
  The method \<open>TypeName\<close> of a value of the interface \<open>Type\<close>, in a heap that gives
  the type definition behind every pointer.
\<close>

definition TypeName :: "(nat \<Rightarrow> TypeDef) \<Rightarrow> Type \<Rightarrow> string" where
  "TypeName heap t =
     (case t of
        TypeDefRef a \<Rightarrow> TypeDef_TypeName (heap a)
      | _ \<Rightarrow> (case embedded_primitive t of Some T \<Rightarrow> primitive_TypeName T | None \<Rightarrow> []))"

text \<open>\<open>ParseType\<close>: the switch on the string, then the error.\<close>

definition ParseType :: "string \<Rightarrow> error + Type" where
  "ParseType s =
     (if s = ''bool'' then Inr Bool
      else if s = ''s8'' then Inr S8
      else if s = ''u8'' then Inr U8
      else if s = ''s16'' then Inr S16
      else if s = ''u16'' then Inr U16
      else if s = ''s32'' then Inr S32
      else if s = ''u32'' then Inr U32
      else if s = ''s64'' then Inr S64
      else if s = ''u64'' then Inr U64
      else if s = ''float32'' then Inr Float32
      else if s = ''float64'' then Inr Float64
      else if s = ''char'' then Inr Char'
      else if s = ''string'' then Inr String
      else Inl (Errorf ''unknown type %q'' [Str s]))"

section \<open>Loading through wasm-tools (wit/load.go)\<close>

text \<open>
  What \<open>loadWIT\<close> reaches outside the package is a parameter: \<open>exec.LookPath\<close>,
  the run of the command (from the path of the executable, its arguments and its
  standard input to the captured standard output, standard error and the error of
  \<open>cmd.Run\<close>), and \<open>DecodeJSON\<close>, which is not among the sources. \<open>'r\<close> is the type
  of readers and \<open>'g\<close> the type of decoded graphs, \<open>*Resolve\<close>.
\<close>

record ('r, 'g) system =
  LookPath :: "string \<Rightarrow> error + string"
  Run :: "string \<Rightarrow> string list \<Rightarrow> 'r option \<Rightarrow> string \<times> string \<times> error option"
  DecodeJSON :: "string \<Rightarrow> error + 'g"

text \<open>What a call does outside the package, in order.\<close>

datatype 'r event =
    LookPathCall string
  | RunCall string "string list" "'r option"
  | StderrWrite string

text \<open>
  \<open>loadWIT\<close> returns its result and what it did outside the package. The guard for
  both inputs comes first; then the lookup of \<open>wasm-tools\<close>, the run with the path
  appended to the arguments when there is one and the reader as standard input,
  and the decoding of the standard output. When the run fails, the captured
  standard error is printed and the error of the run returned.
\<close>

definition loadWIT ::
    "('r, 'g) system \<Rightarrow> string \<Rightarrow> 'r option \<Rightarrow> (error + 'g) \<times> 'r event list" where
  "loadWIT w path reader =
     (if path \<noteq> [] \<and> reader \<noteq> None
      then (Inl (New ''cannot set both path and reader; provide only one''), [])
      else
        (case LookPath w ''wasm-tools'' of
           Inl err \<Rightarrow> (Inl err, [LookPathCall ''wasm-tools''])
         | Inr wasmTools \<Rightarrow>
             let cmdArgs = [''component'', ''wit'', ''-j'', ''--all-features'']
                   @ (if path \<noteq> [] then [path] else [])
             in (case Run w wasmTools cmdArgs reader of
                   (stdout, stderr, Some err) \<Rightarrow>
                     (Inl err, [LookPathCall ''wasm-tools'', RunCall wasmTools cmdArgs reader,
                                StderrWrite stderr])
                 | (stdout, stderr, None) \<Rightarrow>
                     (DecodeJSON w stdout,
                      [LookPathCall ''wasm-tools'', RunCall wasmTools cmdArgs reader]))))"

text \<open>The exported \<open>LoadWIT(path)\<close> and \<open>DecodeWIT(r)\<close>.\<close>

definition LoadWIT :: "('r, 'g) system \<Rightarrow> string \<Rightarrow> (error + 'g) \<times> 'r event list" where
  "LoadWIT w path = loadWIT w path None"

definition DecodeWIT :: "('r, 'g) system \<Rightarrow> 'r option \<Rightarrow> (error + 'g) \<times> 'r event list" where
  "DecodeWIT w r = loadWIT w [] r"

text \<open>
  An instance of the parameters, for concrete inputs: \<open>wasm-tools\<close> is found under
  \<open>/usr/bin\<close>, runs without error, and its output decodes to a graph without type
  definitions. Readers are given by their content.
\<close>

definition system_ok :: "(string, TypeDef list) system" where
  "system_ok =
     \<lparr>LookPath = (\<lambda>file. Inr (''/usr/bin/'' @ file)),
      Run = (\<lambda>exe args stdin. (''{}'', [], None)),
      DecodeJSON = (\<lambda>out. Inr [])\<rparr>"

section \<open>The resolution engine, from the specification\<close>

text \<open>
  Modelled from the spec: the flat serialized description that the resolution
  engine reads. The decoder \<open>DecodeJSON\<close> and the wire format are not among the
  sources. Of the four sequences, that of the type definitions is modelled in
  full; packages are left out, and worlds and interfaces enter by their lengths,
  which bound the owner indices. A reference to a type is a primitive name or a
  zero-based index; a field, a case or a flag comes with its name and its
  documentation.
\<close>

datatype wire_type =
    PrimitiveName string
  | TypeIndex int

text \<open>Modelled from the spec: the tagged kinds of a serialized type definition.\<close>

datatype wire_kind =
    WRecord "(string \<times> wire_type \<times> string) list"
  | WResource
  | WOwn int
  | WBorrow int
  | WFlags "(string \<times> string) list"
  | WTuple "wire_type list"
  | WVariant "(string \<times> wire_type option \<times> string) list"
  | WEnum "(string \<times> string) list"
  | WOption wire_type
  | WResult "wire_type option" "wire_type option"
  | WList wire_type
  | WFuture "wire_type option"
  | WStream "wire_type option" "wire_type option"
  | WAlias wire_type

text \<open>Modelled from the spec: the owner of a serialized type definition, by index.\<close>

datatype wire_owner =
    WWorld int
  | WInterface int

text \<open>Modelled from the spec: a serialized type definition.\<close>

record wire_typedef =
  wname :: "string option"
  wkind :: wire_kind
  wowner :: "wire_owner option"
  wdocs :: string

text \<open>Modelled from the spec: the serialized document, see above.\<close>

record document =
  worlds :: nat
  interfaces :: nat
  types :: "wire_typedef list"

text \<open>
  Modelled from the spec: the error kinds of the resolution engine, with the
  position of the type definition at fault, the field and the index.
\<close>

datatype resolve_error =
    DecodeError error
  | IndexOutOfRange nat string int
  | InvalidHandleTarget nat nat

text \<open>Modelled from the spec: fail-fast sequencing, the first error ends the resolution.\<close>

definition andThen :: "'e + 'a \<Rightarrow> ('a \<Rightarrow> 'e + 'b) \<Rightarrow> 'e + 'b" where
  "andThen r f = (case r of Inl e \<Rightarrow> Inl e | Inr x \<Rightarrow> f x)"

text \<open>Modelled from the spec: the same over the members of a sequence, in order.\<close>

fun traverse :: "('a \<Rightarrow> 'e + 'b) \<Rightarrow> 'a list \<Rightarrow> 'e + 'b list" where
  "traverse f [] = Inr []"
| "traverse f (x # xs) = andThen (f x) (\<lambda>y. andThen (traverse f xs) (\<lambda>ys. Inr (y # ys)))"

text \<open>Modelled from the spec: the same for a reference that may be absent.\<close>

definition optionally :: "('a \<Rightarrow> 'e + 'b) \<Rightarrow> 'a option \<Rightarrow> 'e + 'b option" where
  "optionally f x = (case x of None \<Rightarrow> Inr None | Some a \<Rightarrow> andThen (f a) (\<lambda>b. Inr (Some b)))"

text \<open>
  Modelled from the spec: an index into the type definitions, read by the type
  definition at position \<open>pos\<close> out of \<open>len\<close> type definitions. It is a non-negative integer
  (step 1), in bounds (step 2), and not a forward reference: an index at or after
  the current position is a hard error (step 3).
\<close>

definition resolve_index :: "nat \<Rightarrow> nat \<Rightarrow> string \<Rightarrow> int \<Rightarrow> resolve_error + nat" where
  "resolve_index len pos field idx =
     (if idx < 0 then Inl (DecodeError (Errorf ''negative index in %s'' [Str field]))
      else if len \<le> nat idx then Inl (IndexOutOfRange pos field idx)
      else if pos \<le> nat idx then Inl (IndexOutOfRange pos field idx)
      else Inr (nat idx))"

text \<open>
  Modelled from the spec: a reference to a type. A primitive is found by its
  canonical name (step 5, by \<open>ParseType\<close> of the sources), a type definition by
  its index.
\<close>

definition resolve_type :: "nat \<Rightarrow> nat \<Rightarrow> string \<Rightarrow> wire_type \<Rightarrow> resolve_error + Type" where
  "resolve_type len pos field t =
     (case t of
        PrimitiveName s \<Rightarrow>
          (case ParseType s of Inl err \<Rightarrow> Inl (DecodeError err) | Inr T \<Rightarrow> Inr T)
      | TypeIndex idx \<Rightarrow> andThen (resolve_index len pos field idx) (\<lambda>j. Inr (TypeDefRef j)))"

text \<open>
  Modelled from the spec: the target of a handle is an earlier type definition
  whose kind is \<open>Resource\<close>; any other kind is the validation error
  \<open>InvalidHandleTarget\<close> (step 4). \<open>done\<close> holds the type definitions materialized
  so far.
\<close>

definition resolve_handle :: "nat \<Rightarrow> TypeDef list \<Rightarrow> string \<Rightarrow> int \<Rightarrow> resolve_error + nat" where
  "resolve_handle len done field idx =
     andThen (resolve_index len (length done) field idx)
       (\<lambda>j. if Kind (done ! j) = Resource then Inr j
            else Inl (InvalidHandleTarget (length done) j))"

text \<open>Modelled from the spec: the kind of a type definition, variant by variant.\<close>

definition resolve_kind :: "nat \<Rightarrow> TypeDef list \<Rightarrow> wire_kind \<Rightarrow> resolve_error + TypeDefKind" where
  "resolve_kind len done k =
     (let ty = resolve_type len (length done) in
      case k of
        WRecord fs \<Rightarrow>
          andThen (traverse (\<lambda>(n, t, d). andThen (ty ''record field'' t)
              (\<lambda>T. Inr \<lparr>Field.Name = n, Type = T, Docs = \<lparr>Contents = d\<rparr>\<rparr>)) fs)
            (\<lambda>fs'. Inr (Record fs'))
      | WResource \<Rightarrow> Inr Resource
      | WOwn idx \<Rightarrow> andThen (resolve_handle len done ''own'' idx) (\<lambda>j. Inr (OwnedHandle j))
      | WBorrow idx \<Rightarrow>
          andThen (resolve_handle len done ''borrow'' idx) (\<lambda>j. Inr (BorrowedHandle j))
      | WFlags fs \<Rightarrow>
          Inr (Flags (map (\<lambda>(n, d). \<lparr>Flag.Name = n, Docs = \<lparr>Contents = d\<rparr>\<rparr>) fs))
      | WTuple ts \<Rightarrow> andThen (traverse (ty ''tuple type'') ts) (\<lambda>Ts. Inr (Tuple Ts))
      | WVariant cs \<Rightarrow>
          andThen (traverse (\<lambda>(n, t, d). andThen (optionally (ty ''variant case'') t)
              (\<lambda>T. Inr \<lparr>Case.Name = n, Type = T, Docs = \<lparr>Contents = d\<rparr>\<rparr>)) cs)
            (\<lambda>cs'. Inr (Variant cs'))
      | WEnum cs \<Rightarrow>
          Inr (Enum (map (\<lambda>(n, d). \<lparr>EnumCase.Name = n, Docs = \<lparr>Contents = d\<rparr>\<rparr>) cs))
      | WOption t \<Rightarrow> andThen (ty ''option type'' t) (\<lambda>T. Inr (Option T))
      | WResult ok err \<Rightarrow>
          andThen (optionally (ty ''result ok'') ok)
            (\<lambda>OK. andThen (optionally (ty ''result error'') err) (\<lambda>E. Inr (Result OK E)))
      | WList t \<Rightarrow> andThen (ty ''list type'' t) (\<lambda>T. Inr (List T))
      | WFuture t \<Rightarrow> andThen (optionally (ty ''future type'') t) (\<lambda>T. Inr (Future T))
      | WStream el en \<Rightarrow>
          andThen (optionally (ty ''stream element'') el)
            (\<lambda>El. andThen (optionally (ty ''stream end'') en) (\<lambda>En. Inr (Stream El En)))
      | WAlias t \<Rightarrow> andThen (ty ''type'' t) (\<lambda>T. Inr (TypeKind T)))"

text \<open>
  Modelled from the spec: the owner back-link, an index in bounds of the worlds
  or of the interfaces.
\<close>

definition resolve_owner :: "document \<Rightarrow> nat \<Rightarrow> wire_owner \<Rightarrow> resolve_error + TypeOwner" where
  "resolve_owner doc pos ow =
     (case ow of
        WWorld idx \<Rightarrow>
          (if idx < 0 then Inl (DecodeError (Errorf ''negative index in %s'' [Str ''owner'']))
           else if worlds doc \<le> nat idx then Inl (IndexOutOfRange pos ''owner'' idx)
           else Inr (WorldOwner (nat idx)))
      | WInterface idx \<Rightarrow>
          (if idx < 0 then Inl (DecodeError (Errorf ''negative index in %s'' [Str ''owner'']))
           else if interfaces doc \<le> nat idx then Inl (IndexOutOfRange pos ''owner'' idx)
           else Inr (InterfaceOwner (nat idx))))"

text \<open>Modelled from the spec: one type definition, its owner first, then its kind.\<close>

definition resolve_typedef :: "document \<Rightarrow> TypeDef list \<Rightarrow> wire_typedef \<Rightarrow> resolve_error + TypeDef" where
  "resolve_typedef doc done w =
     andThen (optionally (resolve_owner doc (length done)) (wowner w))
       (\<lambda>ow. andThen (resolve_kind (length (types doc)) done (wkind w))
          (\<lambda>k. Inr \<lparr>TypeDef.Name = wname w, Kind = k, Owner = ow,
                    Docs = \<lparr>Contents = wdocs w\<rparr>\<rparr>))"

text \<open>
  Modelled from the spec: the type definitions are materialized in sequence
  order, each after those before it (step 3); the resolution is all or nothing.
\<close>

fun materialize :: "document \<Rightarrow> wire_typedef list \<Rightarrow> TypeDef list \<Rightarrow> resolve_error + TypeDef list" where
  "materialize doc [] done = Inr done"
| "materialize doc (w # ws) done =
     andThen (resolve_typedef doc done w) (\<lambda>td. materialize doc ws (done @ [td]))"

text \<open>
  Modelled from the spec: the resolution of a document, a graph of type
  definitions or the first error.
\<close>

definition resolve :: "document \<Rightarrow> resolve_error + TypeDef list" where
  "resolve doc = materialize doc (types doc) []"

section \<open>Strings\<close>

text \<open>
  \<open>strings.Index(s, sep)\<close>: the position of the first instance of \<open>sep\<close> in \<open>s\<close>,
  \<open>None\<close> for Go's \<open>-1\<close>.
\<close>

fun Index :: "string \<Rightarrow> string \<Rightarrow> nat option" where
  "Index [] sep = (if sep = [] then Some 0 else None)"
| "Index (c # s) sep =
     (if prefix sep (c # s) then Some 0 else map_option Suc (Index s sep))"

text \<open>
  \<open>strings.Cut(s, sep)\<close>: slices \<open>s\<close> around the first instance of \<open>sep\<close>; when
  \<open>sep\<close> does not occur it returns \<open>s, "", false\<close>.
\<close>

definition Cut :: "string \<Rightarrow> string \<Rightarrow> string \<times> string \<times> bool" where
  "Cut s sep =
     (case Index s sep of
        Some i \<Rightarrow> (take i s, drop (i + length sep) s, True)
      | None \<Rightarrow> (s, [], False))"

section \<open>Package names (wit/resolve.go)\<close>

text \<open>
  \<open>PackageName\<close>: the \<open>Version\<close> field is a \<open>*semver.Version\<close>, \<open>None\<close> for nil.
  The semver package is imported, not part of this repository, so the type of
  versions is a parameter \<open>'v\<close>; its parser \<open>semver.NewVersion\<close> and its
  \<open>Version.String\<close> are passed to the functions that call them.
\<close>

record 'v PackageName =
  Namespace :: string
  Name :: string
  Version :: "'v option"

text \<open>\<open>PackageName.Validate\<close>: the first failing case of the switch, or nil.\<close>

definition Validate :: "'v PackageName \<Rightarrow> error option" where
  "Validate pn =
     (if Namespace pn = [] then Some (New ''missing package namespace'')
      else if Name pn = [] then Some (New ''missing package name'')
      else None)"

text \<open>
  \<open>ParsePackageName\<close> returns the pair \<open>(PackageName, error)\<close> as Go does: the
  package name is returned on the error paths too. \<open>NewVersion\<close> returns a nil
  version together with its error, so \<open>Version\<close> stays \<open>None\<close> on that path.
\<close>

definition ParsePackageName ::
    "(string \<Rightarrow> error + 'v) \<Rightarrow> string \<Rightarrow> 'v PackageName \<times> error option" where
  "ParsePackageName NewVersion s =
     (case Cut s ''@'' of (name, ver, hasVer) \<Rightarrow>
      case Cut name '':'' of (ns, nm, _) \<Rightarrow>
        let pn = \<lparr>Namespace = ns, Name = nm, Version = None\<rparr> in
        if hasVer then
          (case NewVersion ver of
             Inl err \<Rightarrow> (pn, Some err)
           | Inr v \<Rightarrow> (pn\<lparr>Version := Some v\<rparr>, Validate (pn\<lparr>Version := Some v\<rparr>)))
        else (pn, Validate pn))"

text \<open>\<open>PackageName.String\<close>, with \<open>Version.String\<close> as \<open>VersionString\<close>.\<close>

definition PackageName_String :: "('v \<Rightarrow> string) \<Rightarrow> 'v PackageName \<Rightarrow> string" where
  "PackageName_String VersionString pn =
     (case Version pn of
        None \<Rightarrow> Namespace pn @ '':'' @ Name pn
      | Some v \<Rightarrow> Namespace pn @ '':'' @ Name pn @ ''@'' @ VersionString v)"

section \<open>An instance of the semver parameters\<close>

text \<open>
  The imported package \<open>github.com/coreos/go-semver/semver\<close>, as far as
  \<open>NewVersion\<close> and \<open>Version.String\<close> go. It instantiates the parameters above;
  the general theorems hold for every parser of versions. The \<open>int64\<close> fields of
  a version are integers, kept in range by \<open>strconv.ParseInt\<close>, which rejects a
  number that does not fit 64 bits.
\<close>

record semver_Version =
  Major :: int
  Minor :: int
  Patch :: int
  PreRelease :: string
  Metadata :: string

text \<open>\<open>strings.SplitN(s, sep, n)\<close> for a non-empty \<open>sep\<close> and \<open>n \<ge> 0\<close>.\<close>

fun SplitN :: "string \<Rightarrow> string \<Rightarrow> nat \<Rightarrow> string list" where
  "SplitN s sep 0 = []"
| "SplitN s sep (Suc 0) = [s]"
| "SplitN s sep (Suc (Suc n)) =
     (case Index s sep of
        None \<Rightarrow> [s]
      | Some i \<Rightarrow> take i s # SplitN (drop (i + length sep) s) sep (Suc n))"

text \<open>\<open>splitOff(&input, delim)\<close>: the new \<open>input\<close> and the value split off.\<close>

definition splitOff :: "string \<Rightarrow> string \<Rightarrow> string \<times> string" where
  "splitOff input delim =
     (case SplitN input delim 2 of
        [a, b] \<Rightarrow> (a, b)
      | _ \<Rightarrow> (input, []))"

definition isIdentChar :: "char \<Rightarrow> bool" where
  "isIdentChar c =
     (c \<in> set (''0123456789'' @ ''ABCDEFGHIJKLMNOPQRSTUVWXYZ''
        @ ''abcdefghijklmnopqrstuvwxyz'' @ ''-''))"

text \<open>The parts of \<open>s\<close> between dots: \<open>strings.Split(s, ".")\<close>.\<close>

fun dotted :: "string \<Rightarrow> string list" where
  "dotted [] = [[]]"
| "dotted (c # s) =
     (if c = CHR ''.'' then [] # dotted s
      else (case dotted s of p # ps \<Rightarrow> (c # p) # ps | [] \<Rightarrow> [[c]]))"

text \<open>\<open>reIdentifier\<close> is \<open>^[0-9A-Za-z-]+(\\.[0-9A-Za-z-]+)*$\<close>.\<close>

definition reIdentifier_MatchString :: "string \<Rightarrow> bool" where
  "reIdentifier_MatchString s = list_all (\<lambda>p. p \<noteq> [] \<and> list_all isIdentChar p) (dotted s)"

definition validateIdentifier :: "string \<Rightarrow> error option" where
  "validateIdentifier ident =
     (if ident \<noteq> [] \<and> \<not> reIdentifier_MatchString ident
      then Some (Errorf ''%s is not a valid semver identifier'' [Str ident])
      else None)"

definition digitVal :: "char \<Rightarrow> int option" where
  "digitVal c = map_option int (Index ''0123456789'' [c])"

fun digitsVal :: "int \<Rightarrow> string \<Rightarrow> int option" where
  "digitsVal acc [] = Some acc"
| "digitsVal acc (c # s) =
     (case digitVal c of None \<Rightarrow> None | Some d \<Rightarrow> digitsVal (acc * 10 + d) s)"

text \<open>\<open>strconv.ParseInt(s, 10, 64)\<close>: an optional sign, then decimal digits.\<close>

definition NumError :: "string \<Rightarrow> string \<Rightarrow> error" where
  "NumError s msg = Errorf ''strconv.ParseInt: parsing %q: %v'' [Str s, Err (New msg)]"

definition ParseInt :: "string \<Rightarrow> error + int" where
  "ParseInt s =
     (let neg = (s \<noteq> [] \<and> hd s = CHR ''-'');
          ds = (if s \<noteq> [] \<and> (hd s = CHR ''+'' \<or> hd s = CHR ''-'') then tl s else s)
      in if ds = [] then Inl (NumError s ''invalid syntax'')
         else (case digitsVal 0 ds of
                 None \<Rightarrow> Inl (NumError s ''invalid syntax'')
               | Some n \<Rightarrow>
                   let v = (if neg then - n else n) in
                   if v < - (2 ^ 63) \<or> 2 ^ 63 - 1 < v
                   then Inl (NumError s ''value out of range'')
                   else Inr v))"

definition semver_NewVersion :: "string \<Rightarrow> error + semver_Version" where
  "semver_NewVersion version =
     (case splitOff version ''+'' of (version1, metadata) \<Rightarrow>
      case splitOff version1 ''-'' of (version2, preRelease) \<Rightarrow>
      let dotParts = SplitN version2 ''.'' 3 in
      if length dotParts \<noteq> 3
      then Inl (Errorf ''%s is not in dotted-tri format'' [Str version2])
      else case validateIdentifier preRelease of
        Some err \<Rightarrow> Inl (Errorf ''failed to validate pre-release: %v'' [Err err])
      | None \<Rightarrow>
      case validateIdentifier metadata of
        Some err \<Rightarrow> Inl (Errorf ''failed to validate metadata: %v'' [Err err])
      | None \<Rightarrow>
      case ParseInt (dotParts ! 0) of Inl err \<Rightarrow> Inl err | Inr major \<Rightarrow>
      case ParseInt (dotParts ! 1) of Inl err \<Rightarrow> Inl err | Inr minor \<Rightarrow>
      case ParseInt (dotParts ! 2) of Inl err \<Rightarrow> Inl err | Inr patch \<Rightarrow>
        Inr \<lparr>Major = major, Minor = minor, Patch = patch,
             PreRelease = preRelease, Metadata = metadata\<rparr>)"





section \<open>The order of splitting, as the specification words it\<close>

text \<open>
  The specification describes the parser as splitting on the first \<open>:\<close> for
  namespace and name, and then on \<open>@\<close> for the version suffix. This is that
  description, to be compared with \<open>ParsePackageName\<close>; it is not code of the
  repository.
\<close>

definition ParsePackageName_spec ::
    "(string \<Rightarrow> error + 'v) \<Rightarrow> string \<Rightarrow> 'v PackageName \<times> error option" where
  "ParsePackageName_spec NewVersion s =
     (case Cut s '':'' of (ns, rest, _) \<Rightarrow>
      case Cut rest ''@'' of (nm, ver, hasVer) \<Rightarrow>
        let pn = \<lparr>Namespace = ns, Name = nm, Version = None\<rparr> in
        if hasVer then
          (case NewVersion ver of
             Inl err \<Rightarrow> (pn, Some err)
           | Inr v \<Rightarrow> (pn\<lparr>Version := Some v\<rparr>, Validate (pn\<lparr>Version := Some v\<rparr>)))
        else (pn, Validate pn))"

section \<open>Cutting at a one-character separator\<close>

lemma Index_char_None: "c \<notin> set s \<Longrightarrow> Index s [c] = None"
  by (induction s) auto

lemma Index_char_Some: "c \<notin> set a \<Longrightarrow> Index (a @ c # b) [c] = Some (length a)"
  by (induction a) auto

lemma Index_char_split:
  "Index s [c] = Some i \<Longrightarrow> s = take i s @ c # drop (Suc i) s \<and> c \<notin> set (take i s) \<and> i < length s"
proof (induction s arbitrary: i)
  case Nil
  then show ?case by simp
next
  case (Cons x s)
  show ?case
  proof (cases "x = c")
    case True
    with Cons.prems show ?thesis by simp
  next
    case False
    with Cons.prems obtain j where j: "Index s [c] = Some j" "i = Suc j"
      by auto
    from Cons.IH [OF j(1)] False j(2) show ?thesis by auto
  qed
qed

lemma Cut_char_absent: "c \<notin> set s \<Longrightarrow> Cut s [c] = (s, [], False)"
  by (simp add: Cut_def Index_char_None)

lemma Cut_char_first: "c \<notin> set a \<Longrightarrow> Cut (a @ c # b) [c] = (a, b, True)"
  by (simp add: Cut_def Index_char_Some)

lemma Cut_char_found:
  assumes "Cut s [c] = (a, b, True)"
  shows "s = a @ c # b \<and> c \<notin> set a"
proof -
  from assms obtain i where i: "Index s [c] = Some i" "a = take i s" "b = drop (Suc i) s"
    by (auto simp: Cut_def split: option.splits)
  from Index_char_split [OF i(1)] i(2,3) show ?thesis by simp
qed

lemma Cut_char_not_found:
  assumes "Cut s [c] = (a, b, False)"
  shows "a = s \<and> b = [] \<and> c \<notin> set s"
proof -
  from assms have n: "Index s [c] = None" "a = s" "b = []"
    by (auto simp: Cut_def split: option.splits)
  have "c \<notin> set s"
  proof
    assume "c \<in> set s"
    then obtain u v where "s = u @ c # v" "c \<notin> set u"
      by (meson split_list_first)
    with Index_char_Some [of c u v] n(1) show False by simp
  qed
  with n show ?thesis by simp
qed

lemma Cut_char_cases:
  obtains (absent) "c \<notin> set s" "Cut s [c] = (s, [], False)"
  | (found) a b where "s = a @ c # b" "c \<notin> set a" "Cut s [c] = (a, b, True)"
proof (cases "c \<in> set s")
  case True
  then obtain a b where "s = a @ c # b" "c \<notin> set a" by (meson split_list_first)
  then show ?thesis using found Cut_char_first by metis
next
  case False
  then show ?thesis using absent Cut_char_absent by metis
qed

lemma takeWhile_first: "c \<notin> set a \<Longrightarrow> takeWhile (\<lambda>x. x \<noteq> c) (a @ c # b) = a"
  by (induction a) auto

lemma dropWhile_first: "c \<notin> set a \<Longrightarrow> dropWhile (\<lambda>x. x \<noteq> c) (a @ c # b) = c # b"
  by (induction a) auto

lemma takeWhile_absent: "c \<notin> set s \<Longrightarrow> takeWhile (\<lambda>x. x \<noteq> c) s = s"
  by (induction s) auto

lemma dropWhile_absent: "c \<notin> set s \<Longrightarrow> dropWhile (\<lambda>x. x \<noteq> c) s = []"
  by (induction s) auto

text \<open>For a separator of one character, \<open>Cut\<close> is the prefix before its first occurrence,
  the text after it, and whether it occurs.\<close>

lemma Cut_char_eq:
  "Cut s [c] = (takeWhile (\<lambda>x. x \<noteq> c) s, tl (dropWhile (\<lambda>x. x \<noteq> c) s), c \<in> set s)"
proof (cases rule: Cut_char_cases [of c s])
  case absent
  then show ?thesis by (simp add: takeWhile_absent dropWhile_absent)
next
  case (found a b)
  then show ?thesis by (simp add: takeWhile_first dropWhile_first)
qed

section \<open>The two paths of the parser\<close>

lemma Parse_without_at:
  fixes NV :: "string \<Rightarrow> error + 'v"
  assumes "CHR ''@'' \<notin> set s"
  shows "ParsePackageName NV s =
    (case Cut s '':'' of (ns, nm, _) \<Rightarrow>
       (\<lparr>Namespace = ns, Name = nm, Version = None\<rparr>,
        Validate (\<lparr>Namespace = ns, Name = nm, Version = None\<rparr> :: 'v PackageName)))"
  using Cut_char_absent [OF assms]
  by (simp add: ParsePackageName_def Let_def split: prod.splits)

lemma Parse_with_at:
  assumes "CHR ''@'' \<notin> set name"
  shows "ParsePackageName NV (name @ CHR ''@'' # ver) =
    (case Cut name '':'' of (ns, nm, _) \<Rightarrow>
       (case NV ver of
          Inl err \<Rightarrow> (\<lparr>Namespace = ns, Name = nm, Version = None\<rparr>, Some err)
        | Inr v \<Rightarrow> (\<lparr>Namespace = ns, Name = nm, Version = Some v\<rparr>,
                    Validate \<lparr>Namespace = ns, Name = nm, Version = Some v\<rparr>)))"
  using Cut_char_first [OF assms, of ver]
  by (simp add: ParsePackageName_def Let_def split: prod.splits sum.splits)

lemma Validate_None: "Validate pn = None \<Longrightarrow> Namespace pn \<noteq> [] \<and> Name pn \<noteq> []"
  by (simp add: Validate_def split: if_splits)

text \<open>The shape of every successfully parsed package name.\<close>

lemma Parse_success_shape:
  assumes "ParsePackageName NV s = (p, None)"
  shows "Namespace p \<noteq> [] \<and> Name p \<noteq> []
    \<and> CHR '':'' \<notin> set (Namespace p) \<and> CHR ''@'' \<notin> set (Namespace p)
    \<and> CHR ''@'' \<notin> set (Name p)
    \<and> (case Version p of
          None \<Rightarrow> s = Namespace p @ '':'' @ Name p
        | Some v \<Rightarrow> (\<exists>ver. NV ver = Inr v \<and> s = Namespace p @ '':'' @ Name p @ ''@'' @ ver))"
proof (cases rule: Cut_char_cases [of "CHR ''@''" s])
  case absent
  obtain ns nm f where c: "Cut s '':'' = (ns, nm, f)" by (cases "Cut s '':''") auto
  with assms absent have p: "p = \<lparr>Namespace = ns, Name = nm, Version = None\<rparr>" "Validate p = None"
    by (auto simp: Parse_without_at)
  from Validate_None [OF p(2)] p(1) have ne: "ns \<noteq> []" "nm \<noteq> []" by auto
  have "f" using Cut_char_not_found [of s "CHR '':''" ns nm] c ne by (cases f) auto
  with c Cut_char_found [of s "CHR '':''" ns nm] have "s = ns @ CHR '':'' # nm" "CHR '':'' \<notin> set ns"
    by auto
  with absent(1) ne p(1) show ?thesis by auto
next
  case (found name ver)
  obtain ns nm f where c: "Cut name '':'' = (ns, nm, f)" by (cases "Cut name '':''") auto
  from assms found c obtain v where v: "NV ver = Inr v"
    and p: "p = \<lparr>Namespace = ns, Name = nm, Version = Some v\<rparr>" "Validate p = None"
    by (auto simp: Parse_with_at split: sum.splits)
  from Validate_None [OF p(2)] p(1) have ne: "ns \<noteq> []" "nm \<noteq> []" by auto
  have "f" using Cut_char_not_found [of name "CHR '':''" ns nm] c ne by (cases f) auto
  with c Cut_char_found [of name "CHR '':''" ns nm]
  have "name = ns @ CHR '':'' # nm" "CHR '':'' \<notin> set ns"
    by auto
  with found(1,2) ne p(1) v show ?thesis by auto
qed



section \<open>The parser in terms of the first delimiters\<close>

lemma Parse_eq:
  fixes NV :: "string \<Rightarrow> error + 'v"
  shows "ParsePackageName NV s =
    (let name = takeWhile (\<lambda>c. c \<noteq> CHR ''@'') s;
         ver = tl (dropWhile (\<lambda>c. c \<noteq> CHR ''@'') s);
         ns = takeWhile (\<lambda>c. c \<noteq> CHR '':'') name;
         nm = tl (dropWhile (\<lambda>c. c \<noteq> CHR '':'') name);
         pn = \<lparr>Namespace = ns, Name = nm, Version = None\<rparr>
     in if CHR ''@'' \<in> set s
        then (case NV ver of
                Inl err \<Rightarrow> (pn, Some err)
              | Inr v \<Rightarrow> (pn\<lparr>Version := Some v\<rparr>, Validate (pn\<lparr>Version := Some v\<rparr>)))
        else (pn, Validate pn))"
  by (simp add: ParsePackageName_def Cut_char_eq Let_def)

lemma Parse_spec_eq:
  fixes NV :: "string \<Rightarrow> error + 'v"
  shows "ParsePackageName_spec NV s =
    (let ns = takeWhile (\<lambda>c. c \<noteq> CHR '':'') s;
         rest = tl (dropWhile (\<lambda>c. c \<noteq> CHR '':'') s);
         nm = takeWhile (\<lambda>c. c \<noteq> CHR ''@'') rest;
         ver = tl (dropWhile (\<lambda>c. c \<noteq> CHR ''@'') rest);
         pn = \<lparr>Namespace = ns, Name = nm, Version = None\<rparr>
     in if CHR ''@'' \<in> set rest
        then (case NV ver of
                Inl err \<Rightarrow> (pn, Some err)
              | Inr v \<Rightarrow> (pn\<lparr>Version := Some v\<rparr>, Validate (pn\<lparr>Version := Some v\<rparr>)))
        else (pn, Validate pn))"
  by (simp add: ParsePackageName_spec_def Cut_char_eq Let_def)

lemma Parse_Namespace:
  "Namespace (fst (ParsePackageName NV s))
     = takeWhile (\<lambda>c. c \<noteq> CHR '':'') (takeWhile (\<lambda>c. c \<noteq> CHR ''@'') s)"
  by (simp add: Parse_eq Let_def split: sum.splits)

lemma Parse_Name:
  "Name (fst (ParsePackageName NV s))
     = tl (dropWhile (\<lambda>c. c \<noteq> CHR '':'') (takeWhile (\<lambda>c. c \<noteq> CHR ''@'') s))"
  by (simp add: Parse_eq Let_def split: sum.splits)

lemma Parse_spec_Namespace:
  "Namespace (fst (ParsePackageName_spec NV s)) = takeWhile (\<lambda>c. c \<noteq> CHR '':'') s"
  by (simp add: Parse_spec_eq Let_def split: sum.splits)

lemma Parse_error_iff:
  "(snd (ParsePackageName NV s) \<noteq> None) =
     (Namespace (fst (ParsePackageName NV s)) = []
      \<or> Name (fst (ParsePackageName NV s)) = []
      \<or> (CHR ''@'' \<in> set s \<and> isl (NV (tl (dropWhile (\<lambda>c. c \<noteq> CHR ''@'') s)))))"
  by (auto simp: Parse_eq Let_def Validate_def split: sum.splits)

lemma orders_agree:
  assumes "CHR ''@'' \<notin> set (takeWhile (\<lambda>c. c \<noteq> CHR '':'') s)"
  shows "ParsePackageName NV s = ParsePackageName_spec NV s"
proof (cases rule: Cut_char_cases [of "CHR '':''" s])
  case absent
  with assms have "CHR ''@'' \<notin> set s" by (simp add: takeWhile_absent)
  with absent show ?thesis
    by (simp add: ParsePackageName_def ParsePackageName_spec_def Cut_char_absent)
next
  case (found a b)
  with assms have a: "CHR ''@'' \<notin> set a" by (simp add: takeWhile_first)
  show ?thesis
  proof (cases rule: Cut_char_cases [of "CHR ''@''" b])
    case absent
    with a found(1) have "CHR ''@'' \<notin> set s" by simp
    with absent found show ?thesis
      by (simp add: ParsePackageName_def ParsePackageName_spec_def Cut_char_absent)
  next
    case (found nm ver)
    with a \<open>s = a @ CHR '':'' # b\<close> have s: "s = (a @ CHR '':'' # nm) @ CHR ''@'' # ver"
      and n: "CHR ''@'' \<notin> set (a @ CHR '':'' # nm)" by simp_all
    have "Cut s ''@'' = (a @ CHR '':'' # nm, ver, True)"
      unfolding s using Cut_char_first [OF n] by simp
    moreover have "Cut (a @ CHR '':'' # nm) '':'' = (a, nm, True)"
      using Cut_char_first [OF \<open>CHR '':'' \<notin> set a\<close>] by simp
    ultimately show ?thesis
      using \<open>Cut s [CHR '':''] = (a, b, True)\<close> found(3)
      by (simp add: ParsePackageName_def ParsePackageName_spec_def)
  qed
qed

lemma orders_differ:
  assumes "CHR ''@'' \<in> set (takeWhile (\<lambda>c. c \<noteq> CHR '':'') s)"
  shows "ParsePackageName NV s \<noteq> ParsePackageName_spec NV s"
proof
  assume "ParsePackageName NV s = ParsePackageName_spec NV s"
  then have "Namespace (fst (ParsePackageName NV s)) = Namespace (fst (ParsePackageName_spec NV s))"
    by simp
  then have eq: "takeWhile (\<lambda>c. c \<noteq> CHR '':'') (takeWhile (\<lambda>c. c \<noteq> CHR ''@'') s)
     = takeWhile (\<lambda>c. c \<noteq> CHR '':'') s"
    by (simp only: Parse_Namespace Parse_spec_Namespace)
  have "CHR ''@'' \<notin> set (takeWhile (\<lambda>c. c \<noteq> CHR ''@'') s)"
    by (auto dest: set_takeWhileD)
  then have "CHR ''@'' \<notin> set (takeWhile (\<lambda>c. c \<noteq> CHR '':'') (takeWhile (\<lambda>c. c \<noteq> CHR ''@'') s))"
    by (auto dest: set_takeWhileD)
  with eq assms show False by simp
qed

section \<open>The semver instance reads back what it prints\<close>



























section \<open>Round trip of package names\<close>



text \<open>
  Conversely, the canonical strings are the only ones that parse and are printed
  back unchanged.
\<close>

lemma round_trip_is_canonical:
  fixes NewVersion :: "string \<Rightarrow> error + 'v" and VersionString :: "'v \<Rightarrow> string"
  assumes "ParsePackageName NewVersion s = (p, None)" "PackageName_String VersionString p = s"
  shows "\<exists>ns nm. ns \<noteq> [] \<and> nm \<noteq> [] \<and> CHR '':'' \<notin> set ns \<and> CHR ''@'' \<notin> set ns
      \<and> CHR ''@'' \<notin> set nm
      \<and> (s = ns @ '':'' @ nm
         \<or> (\<exists>ver w. NewVersion ver = Inr w \<and> VersionString w = ver
               \<and> s = ns @ '':'' @ nm @ ''@'' @ ver))"
proof -
  note sh = Parse_success_shape [OF assms(1)]
  show ?thesis
  proof (cases "Version p")
    case None
    with sh show ?thesis by (intro exI [of _ "Namespace p"] exI [of _ "Name p"]) simp
  next
    case (Some v)
    with sh obtain ver where ver: "NewVersion ver = Inr v"
      "s = Namespace p @ '':'' @ Name p @ ''@'' @ ver" by auto
    with assms(2) Some have "VersionString v = ver" by (simp add: PackageName_String_def)
    with sh ver show ?thesis
      by (intro exI [of _ "Namespace p"] exI [of _ "Name p"]) auto
  qed
qed


section \<open>Validation of package names\<close>

text \<open>
  C8. \<open>PackageName.Validate\<close> returns nil exactly when \<open>Namespace\<close> and \<open>Name\<close> are
  both non-empty; nothing else is checked, so a package name whose \<open>Name\<close> holds
  further \<open>:\<close> characters or any other text is reported valid.
\<close>

theorem Validate_nil_iff:
  "(Validate pn = None) = (Namespace pn \<noteq> [] \<and> Name pn \<noteq> [])
   \<and> Validate \<lparr>Namespace = ''a'', Name = ''b:c:@ d'', Version = v\<rparr> = None"
  by (simp add: Validate_def)

section \<open>The order of the two splits\<close>

text \<open>
  C5, as stated: for every input, \<open>ParsePackageName\<close> splits on the first \<open>:\<close> and
  then on \<open>@\<close>. The code cuts at the first \<open>@\<close> before it looks for a \<open>:\<close>, and
  on \<open>a@b:c\<close> the two orders part: the code reads a version suffix \<open>b:c\<close> and
  fails, the stated order reads namespace \<open>a@b\<close> and name \<open>c\<close>.
\<close>

theorem split_order_counterexample:
  "ParsePackageName semver_NewVersion ''a@b:c''
     = (\<lparr>Namespace = ''a'', Name = [], Version = None\<rparr>,
        Some (Errorf ''%s is not in dotted-tri format'' [Str ''b:c'']))
   \<and> ParsePackageName_spec semver_NewVersion ''a@b:c''
     = (\<lparr>Namespace = ''a@b'', Name = ''c'', Version = None\<rparr>, None)
   \<and> ParsePackageName semver_NewVersion ''a@b:c''
     \<noteq> ParsePackageName_spec semver_NewVersion ''a@b:c''"
  by code_simp

text \<open>
  C5, amended: \<open>ParsePackageName\<close> cuts the input at its first \<open>@\<close> for the optional
  version suffix, and cuts the part before it at its first \<open>:\<close> for namespace and
  name. Its result is that of the stated order exactly when no \<open>@\<close> comes before
  the first \<open>:\<close>. When a version suffix is present and the semver parser rejects
  it, the parse fails with that error; when it is accepted it is the version of
  the result, and without a suffix the version is nil.
\<close>

theorem split_order:
  fixes NewVersion :: "string \<Rightarrow> error + 'v"
  shows
  "Namespace (fst (ParsePackageName NewVersion s))
     = takeWhile (\<lambda>c. c \<noteq> CHR '':'') (takeWhile (\<lambda>c. c \<noteq> CHR ''@'') s)
   \<and> Name (fst (ParsePackageName NewVersion s))
     = tl (dropWhile (\<lambda>c. c \<noteq> CHR '':'') (takeWhile (\<lambda>c. c \<noteq> CHR ''@'') s))
   \<and> ((ParsePackageName NewVersion s = ParsePackageName_spec NewVersion s)
       = (CHR ''@'' \<notin> set (takeWhile (\<lambda>c. c \<noteq> CHR '':'') s)))
   \<and> (CHR ''@'' \<in> set s \<and> NewVersion (tl (dropWhile (\<lambda>c. c \<noteq> CHR ''@'') s)) = Inl err
      \<longrightarrow> snd (ParsePackageName NewVersion s) = Some err)
   \<and> (CHR ''@'' \<in> set s \<and> NewVersion (tl (dropWhile (\<lambda>c. c \<noteq> CHR ''@'') s)) = Inr v
      \<longrightarrow> Version (fst (ParsePackageName NewVersion s)) = Some v)
   \<and> (CHR ''@'' \<notin> set s \<longrightarrow> Version (fst (ParsePackageName NewVersion s)) = None)"
proof (intro conjI impI)
  show "(ParsePackageName NewVersion s = ParsePackageName_spec NewVersion s)
       = (CHR ''@'' \<notin> set (takeWhile (\<lambda>c. c \<noteq> CHR '':'') s))"
    using orders_agree [of s NewVersion] orders_differ [of s NewVersion] by blast
qed (simp_all add: Parse_Namespace Parse_Name, simp_all add: Parse_eq Let_def)

theorem split_order_witness:
  "CHR ''@'' \<in> set ''wasi:clocks@1.0''
   \<and> semver_NewVersion ''1.0'' = Inl (Errorf ''%s is not in dotted-tri format'' [Str ''1.0''])
   \<and> snd (ParsePackageName semver_NewVersion ''wasi:clocks@1.0'')
       = Some (Errorf ''%s is not in dotted-tri format'' [Str ''1.0''])
   \<and> ParsePackageName semver_NewVersion ''wasi:clocks@1.0''
       = ParsePackageName_spec semver_NewVersion ''wasi:clocks@1.0''
   \<and> Version (fst (ParsePackageName semver_NewVersion ''wasi:clocks@1.0.0''))
       = Some \<lparr>Major = 1, Minor = 0, Patch = 0, PreRelease = [], Metadata = []\<rparr>
   \<and> CHR ''@'' \<notin> set ''wasi:clocks''
   \<and> Version (fst (ParsePackageName semver_NewVersion ''wasi:clocks'')) = None"
proof -
  let ?e = "Errorf ''%s is not in dotted-tri format'' [Str ''1.0'']"
  let ?v = "\<lparr>Major = 1, Minor = 0, Patch = 0, PreRelease = [], Metadata = []\<rparr>"
  let ?suffix = "\<lambda>s. tl (dropWhile (\<lambda>c. c \<noteq> CHR ''@'') s)"
  have bad: "semver_NewVersion ''1.0'' = Inl ?e" by code_simp
  have good: "semver_NewVersion ''1.0.0'' = Inr ?v" by code_simp
  note rejected = split_order [of semver_NewVersion "''wasi:clocks@1.0''" ?e ?v]
  note accepted = split_order [of semver_NewVersion "''wasi:clocks@1.0.0''" ?e ?v]
  note plain = split_order [of semver_NewVersion "''wasi:clocks''" ?e ?v]
  have h1: "CHR ''@'' \<in> set ''wasi:clocks@1.0''
      \<and> semver_NewVersion (?suffix ''wasi:clocks@1.0'') = Inl ?e"
    using bad by simp
  have h2: "CHR ''@'' \<in> set ''wasi:clocks@1.0.0''
      \<and> semver_NewVersion (?suffix ''wasi:clocks@1.0.0'') = Inr ?v"
    using good by simp
  have h3: "CHR ''@'' \<notin> set (takeWhile (\<lambda>c. c \<noteq> CHR '':'') ''wasi:clocks@1.0'')"
    by simp
  have h4: "CHR ''@'' \<notin> set ''wasi:clocks''" by simp
  have c1: "snd (ParsePackageName semver_NewVersion ''wasi:clocks@1.0'') = Some ?e"
    using rejected h1 by blast
  have c2: "ParsePackageName semver_NewVersion ''wasi:clocks@1.0''
       = ParsePackageName_spec semver_NewVersion ''wasi:clocks@1.0''"
    using rejected h3 by blast
  have c3: "Version (fst (ParsePackageName semver_NewVersion ''wasi:clocks@1.0.0'')) = Some ?v"
    using accepted h2 by blast
  have c4: "Version (fst (ParsePackageName semver_NewVersion ''wasi:clocks'')) = None"
    using plain h4 by blast
  from h1 bad c1 c2 c3 h4 c4 show ?thesis by blast
qed

section \<open>Inputs without a colon\<close>

text \<open>
  C6, as stated: an input without \<open>:\<close> yields an empty namespace. \<open>strings.Cut\<close>
  returns the whole text as its first result when the separator is absent, so
  \<open>clocks\<close> yields the namespace \<open>clocks\<close> and an empty name.
\<close>

theorem no_colon_counterexample:
  "CHR '':'' \<notin> set ''clocks''
   \<and> ParsePackageName semver_NewVersion ''clocks''
     = (\<lparr>Namespace = ''clocks'', Name = [], Version = None\<rparr>, Some (New ''missing package name''))
   \<and> Namespace (fst (ParsePackageName semver_NewVersion ''clocks'')) \<noteq> []"
  by code_simp

text \<open>
  C6, amended: for every input that contains no \<open>:\<close>, \<open>ParsePackageName\<close> yields a
  package name with an empty \<open>Name\<close>, whose \<open>Namespace\<close> is the text before the
  first \<open>@\<close> (empty only when the input is empty or begins with \<open>@\<close>), and rejects
  the input with an error.
\<close>

theorem no_colon_rejected:
  assumes "CHR '':'' \<notin> set s"
  shows "Name (fst (ParsePackageName NewVersion s)) = []
    \<and> Namespace (fst (ParsePackageName NewVersion s)) = takeWhile (\<lambda>c. c \<noteq> CHR ''@'') s
    \<and> (Namespace (fst (ParsePackageName NewVersion s)) = []) = (s = [] \<or> hd s = CHR ''@'')
    \<and> snd (ParsePackageName NewVersion s) \<noteq> None"
proof -
  let ?name = "takeWhile (\<lambda>c. c \<noteq> CHR ''@'') s"
  from assms have n: "CHR '':'' \<notin> set ?name" by (auto dest: set_takeWhileD)
  have nm: "Name (fst (ParsePackageName NewVersion s)) = []"
    by (simp add: Parse_Name dropWhile_absent [OF n])
  have ns: "Namespace (fst (ParsePackageName NewVersion s)) = ?name"
    by (simp add: Parse_Namespace takeWhile_absent [OF n])
  have "(?name = []) = (s = [] \<or> hd s = CHR ''@'')"
    by (cases s) auto
  moreover have "snd (ParsePackageName NewVersion s) \<noteq> None"
    using nm Parse_error_iff [of NewVersion s] by blast
  ultimately show ?thesis using nm ns by simp
qed

theorem no_colon_rejected_witness:
  "CHR '':'' \<notin> set ''clocks@1.0.0''
   \<and> Name (fst (ParsePackageName semver_NewVersion ''clocks@1.0.0'')) = []
   \<and> Namespace (fst (ParsePackageName semver_NewVersion ''clocks@1.0.0'')) = ''clocks''
   \<and> snd (ParsePackageName semver_NewVersion ''clocks@1.0.0'') \<noteq> None"
proof -
  have h: "CHR '':'' \<notin> set ''clocks@1.0.0''" by simp
  from no_colon_rejected [OF h, of semver_NewVersion] h show ?thesis by simp
qed

section \<open>When the parser returns an error\<close>

text \<open>
  C7. \<open>ParsePackageName\<close> returns an error exactly when the parsed namespace is
  empty, the parsed name is empty, or there is a version suffix after \<open>@\<close> that
  the semver parser rejects. The input \<open>:clocks\<close> has an empty namespace and is
  rejected with the error of \<open>Validate\<close> for a missing namespace.
\<close>

theorem ParsePackageName_error_iff:
  "(snd (ParsePackageName NewVersion s) \<noteq> None) =
     (Namespace (fst (ParsePackageName NewVersion s)) = []
      \<or> Name (fst (ParsePackageName NewVersion s)) = []
      \<or> (CHR ''@'' \<in> set s \<and> isl (NewVersion (tl (dropWhile (\<lambda>c. c \<noteq> CHR ''@'') s)))))
   \<and> ParsePackageName NewVersion '':clocks''
     = (\<lparr>Namespace = [], Name = ''clocks'', Version = None\<rparr>,
        Some (New ''missing package namespace''))"
proof (intro conjI)
  show "ParsePackageName NewVersion '':clocks''
     = (\<lparr>Namespace = [], Name = ''clocks'', Version = None\<rparr>,
        Some (New ''missing package namespace''))"
    by (simp add: Parse_eq Validate_def)
qed (rule Parse_error_iff)

theorem ParsePackageName_error_iff_witness:
  "snd (ParsePackageName semver_NewVersion ''wasi:clocks@1.0'') \<noteq> None
   \<and> Namespace (fst (ParsePackageName semver_NewVersion ''wasi:clocks@1.0'')) = ''wasi''
   \<and> Name (fst (ParsePackageName semver_NewVersion ''wasi:clocks@1.0'')) = ''clocks''
   \<and> isl (semver_NewVersion ''1.0'')
   \<and> snd (ParsePackageName semver_NewVersion ''wasi:clocks@1.0.0'') = None"
proof -
  have bad: "isl (semver_NewVersion ''1.0'')" by code_simp
  have good: "\<not> isl (semver_NewVersion ''1.0.0'')" by code_simp
  have f: "Namespace (fst (ParsePackageName semver_NewVersion ''wasi:clocks@1.0'')) = ''wasi''"
    "Name (fst (ParsePackageName semver_NewVersion ''wasi:clocks@1.0'')) = ''clocks''"
    "Namespace (fst (ParsePackageName semver_NewVersion ''wasi:clocks@1.0.0'')) = ''wasi''"
    "Name (fst (ParsePackageName semver_NewVersion ''wasi:clocks@1.0.0'')) = ''clocks''"
    by (simp_all add: Parse_Namespace Parse_Name)
  have h1: "CHR ''@'' \<in> set ''wasi:clocks@1.0''
      \<and> isl (semver_NewVersion (tl (dropWhile (\<lambda>c. c \<noteq> CHR ''@'') ''wasi:clocks@1.0'')))"
    using bad by simp
  have h2: "\<not> isl (semver_NewVersion (tl (dropWhile (\<lambda>c. c \<noteq> CHR ''@'') ''wasi:clocks@1.0.0'')))"
    using good by simp
  have c1: "snd (ParsePackageName semver_NewVersion ''wasi:clocks@1.0'') \<noteq> None"
    using ParsePackageName_error_iff [of semver_NewVersion "''wasi:clocks@1.0''"] h1 by blast
  have c2: "snd (ParsePackageName semver_NewVersion ''wasi:clocks@1.0.0'') = None"
    using ParsePackageName_error_iff [of semver_NewVersion "''wasi:clocks@1.0.0''"] h2 f(3,4)
    by auto
  from c1 c2 bad f(1,2) show ?thesis by blast
qed

section \<open>Primitive type names\<close>

text \<open>
  C3. \<open>ParseType s\<close> succeeds exactly when \<open>s\<close> is one of the thirteen canonical
  primitive names; the \<open>TypeName\<close> of the type it returns is \<open>s\<close>; for every other
  \<open>s\<close> it returns the error \<open>fmt.Errorf("unknown type %q", s)\<close>, whose message is
  formatted from the unrecognized \<open>s\<close>.
\<close>

theorem ParseType_canonical:
  "((\<exists>t. ParseType s = Inr t) =
      (s \<in> set [''bool'', ''s8'', ''u8'', ''s16'', ''u16'', ''s32'', ''u32'', ''s64'', ''u64'',
                 ''float32'', ''float64'', ''char'', ''string'']))
   \<and> (ParseType s = Inr t \<longrightarrow> TypeName heap t = s)
   \<and> (s \<notin> set [''bool'', ''s8'', ''u8'', ''s16'', ''u16'', ''s32'', ''u32'', ''s64'', ''u64'',
                 ''float32'', ''float64'', ''char'', ''string'']
      \<longrightarrow> ParseType s = Inl (Errorf ''unknown type %q'' [Str s]))"
proof (intro conjI impI)
  show "(\<exists>t. ParseType s = Inr t) =
      (s \<in> set [''bool'', ''s8'', ''u8'', ''s16'', ''u16'', ''s32'', ''u32'', ''s64'', ''u64'',
                 ''float32'', ''float64'', ''char'', ''string''])"
    unfolding ParseType_def by (simp split: if_splits)
next
  assume "ParseType s = Inr t"
  then show "TypeName heap t = s"
    unfolding ParseType_def by (auto simp: TypeName_def split: if_splits)
next
  assume "s \<notin> set [''bool'', ''s8'', ''u8'', ''s16'', ''u16'', ''s32'', ''u32'', ''s64'', ''u64'',
                 ''float32'', ''float64'', ''char'', ''string'']"
  then show "ParseType s = Inl (Errorf ''unknown type %q'' [Str s])"
    unfolding ParseType_def by simp
qed

theorem ParseType_canonical_witness:
  "ParseType ''u32'' = Inr U32
   \<and> TypeName (\<lambda>a. \<lparr>TypeDef.Name = None, Kind = Resource, Owner = None, Docs = \<lparr>Contents = []\<rparr>\<rparr>) U32
       = ''u32''
   \<and> ''int'' \<notin> set [''bool'', ''s8'', ''u8'', ''s16'', ''u16'', ''s32'', ''u32'', ''s64'', ''u64'',
                 ''float32'', ''float64'', ''char'', ''string'']
   \<and> ParseType ''int'' = Inl (Errorf ''unknown type %q'' [Str ''int''])"
proof -
  let ?heap = "\<lambda>a::nat. \<lparr>TypeDef.Name = None, Kind = Resource, Owner = None, Docs = \<lparr>Contents = []\<rparr>\<rparr>"
  have p: "ParseType ''u32'' = Inr U32" by (simp add: ParseType_def)
  have n: "''int'' \<notin> set [''bool'', ''s8'', ''u8'', ''s16'', ''u16'', ''s32'', ''u32'', ''s64'', ''u64'',
                 ''float32'', ''float64'', ''char'', ''string'']" by simp
  have "TypeName ?heap U32 = ''u32''"
    using ParseType_canonical [of "''u32''" U32 ?heap] p by blast
  moreover have "ParseType ''int'' = Inl (Errorf ''unknown type %q'' [Str ''int''])"
    using ParseType_canonical [of "''int''" U32 ?heap] n by blast
  ultimately show ?thesis using p n by blast
qed

section \<open>The name of a type definition\<close>

text \<open>
  C10. For every type definition \<open>t\<close>, \<open>t.TypeName()\<close> is the string behind \<open>t.Name\<close>
  when \<open>t.Name\<close> is not nil and the empty string when it is nil: an anonymous type
  definition has the name \<open>""\<close>, and the call does not fail.
\<close>

theorem TypeDef_TypeName_cases:
  "(TypeDef.Name t = Some n \<longrightarrow> TypeDef_TypeName t = n)
   \<and> (TypeDef.Name t = None \<longrightarrow> TypeDef_TypeName t = [])"
  by (simp add: TypeDef_TypeName_def)

theorem TypeDef_TypeName_cases_witness:
  "TypeDef_TypeName \<lparr>TypeDef.Name = Some ''datetime'', Kind = Resource, Owner = Some (InterfaceOwner 0),
       Docs = \<lparr>Contents = []\<rparr>\<rparr> = ''datetime''
   \<and> TypeDef_TypeName \<lparr>TypeDef.Name = None, Kind = List U8, Owner = None,
       Docs = \<lparr>Contents = []\<rparr>\<rparr> = []"
proof -
  let ?named = "\<lparr>TypeDef.Name = Some ''datetime'', Kind = Resource, Owner = Some (InterfaceOwner 0),
       Docs = \<lparr>Contents = []\<rparr>\<rparr>"
  let ?anon = "\<lparr>TypeDef.Name = None, Kind = List U8, Owner = None, Docs = \<lparr>Contents = []\<rparr>\<rparr>"
  have "TypeDef.Name ?named = Some ''datetime''" "TypeDef.Name ?anon = None" by simp_all
  with TypeDef_TypeName_cases [of ?named "''datetime''"] TypeDef_TypeName_cases [of ?anon]
  show ?thesis by blast
qed

section \<open>The two inputs of loadWIT\<close>

text \<open>
  C4, as stated: \<open>loadWIT\<close> fails with the input-conflict error also when neither a
  path nor a reader is supplied. The guard of \<open>loadWIT\<close> tests only for both; with
  neither, the tool is looked up and run without a path argument and with a nil
  standard input, and where that succeeds so does \<open>loadWIT\<close>.
\<close>

theorem loadWIT_neither_counterexample:
  "loadWIT system_ok [] None
     = (Inr [], [LookPathCall ''wasm-tools'',
                 RunCall ''/usr/bin/wasm-tools'' [''component'', ''wit'', ''-j'', ''--all-features''] None])
   \<and> fst (loadWIT system_ok [] None)
     \<noteq> Inl (New ''cannot set both path and reader; provide only one'')"
  by (simp add: loadWIT_def system_ok_def)

text \<open>
  C4, amended: \<open>loadWIT\<close> fails with the input-conflict error when both a source
  path and a reader are supplied, and it returns that error before it locates or
  runs any subprocess. In every other case, that of neither input too, it goes on
  to look up \<open>wasm-tools\<close>; with neither input its result is the error of the
  lookup or of the run, or else what \<open>DecodeJSON\<close> makes of the output.
\<close>

theorem loadWIT_conflict:
  "(path \<noteq> [] \<and> reader \<noteq> None
      \<longrightarrow> loadWIT w path reader
          = (Inl (New ''cannot set both path and reader; provide only one''), []))
   \<and> (path = [] \<or> reader = None
      \<longrightarrow> (\<exists>es. snd (loadWIT w path reader) = LookPathCall ''wasm-tools'' # es))
   \<and> loadWIT w [] None =
       (case LookPath w ''wasm-tools'' of
          Inl err \<Rightarrow> (Inl err, [LookPathCall ''wasm-tools''])
        | Inr exe \<Rightarrow>
            (case Run w exe [''component'', ''wit'', ''-j'', ''--all-features''] None of
               (out, errout, Some err) \<Rightarrow>
                 (Inl err,
                  [LookPathCall ''wasm-tools'',
                   RunCall exe [''component'', ''wit'', ''-j'', ''--all-features''] None,
                   StderrWrite errout])
             | (out, errout, None) \<Rightarrow>
                 (DecodeJSON w out,
                  [LookPathCall ''wasm-tools'',
                   RunCall exe [''component'', ''wit'', ''-j'', ''--all-features''] None])))"
  by (auto simp: loadWIT_def Let_def split: sum.splits prod.splits option.splits)

theorem loadWIT_conflict_witness:
  "loadWIT system_ok ''clocks.wit'' (Some ''package wasi:clocks;'')
     = (Inl (New ''cannot set both path and reader; provide only one''), [])
   \<and> (\<exists>es. snd (loadWIT system_ok ''clocks.wit'' None) = LookPathCall ''wasm-tools'' # es)"
proof -
  have both: "''clocks.wit'' \<noteq> [] \<and> Some ''package wasi:clocks;'' \<noteq> None" by simp
  have one: "''clocks.wit'' = [] \<or> (None :: string option) = None" by simp
  from loadWIT_conflict [of "''clocks.wit''" "Some ''package wasi:clocks;''" system_ok] both
  have "loadWIT system_ok ''clocks.wit'' (Some ''package wasi:clocks;'')
     = (Inl (New ''cannot set both path and reader; provide only one''), [])" by blast
  moreover from loadWIT_conflict [of "''clocks.wit''" None system_ok] one
  have "\<exists>es. snd (loadWIT system_ok ''clocks.wit'' None) = LookPathCall ''wasm-tools'' # es"
    by blast
  ultimately show ?thesis by blast
qed

section \<open>The exported entry points\<close>

text \<open>
  C9. \<open>LoadWIT\<close> calls \<open>loadWIT\<close> with a nil reader and \<open>DecodeWIT\<close> calls it with an
  empty path, so no call through either reaches the branch of \<open>loadWIT\<close> for both
  inputs: every such call goes on to look up \<open>wasm-tools\<close>, which that branch,
  returning at once, never does.
\<close>

theorem entry_points_never_conflict:
  "LoadWIT w path = loadWIT w path None
   \<and> DecodeWIT w r = loadWIT w [] r
   \<and> (\<exists>es. snd (LoadWIT w path) = LookPathCall ''wasm-tools'' # es)
   \<and> (\<exists>es. snd (DecodeWIT w r) = LookPathCall ''wasm-tools'' # es)"
  by (auto simp: LoadWIT_def DecodeWIT_def loadWIT_def Let_def
      split: sum.splits prod.splits option.splits)

section \<open>Resolution of handles\<close>

lemma andThen_Inr: "(andThen r f = Inr y) = (\<exists>x. r = Inr x \<and> f x = Inr y)"
  by (cases r) (simp_all add: andThen_def)

lemma resolve_index_Inr:
  assumes "resolve_index len pos field idx = Inr j"
  shows "0 \<le> idx \<and> j = nat idx \<and> j < pos \<and> j < len"
  using assms by (auto simp: resolve_index_def split: if_splits)

lemma resolve_handle_Inr:
  assumes "resolve_handle len done field idx = Inr j"
  shows "0 \<le> idx \<and> j = nat idx \<and> j < length done \<and> Kind (done ! j) = Resource"
proof -
  from assms obtain j' where j': "resolve_index len (length done) field idx = Inr j'"
    and k: "(if Kind (done ! j') = Resource then Inr j'
             else Inl (InvalidHandleTarget (length done) j')) = Inr j"
    by (auto simp: resolve_handle_def andThen_Inr)
  from k have "j' = j" "Kind (done ! j) = Resource" by (auto split: if_splits)
  with resolve_index_Inr [OF j'] show ?thesis by simp
qed

text \<open>A resolved kind is a handle only for a serialized handle, and then its target is
  an earlier resource.\<close>

lemma resolve_kind_handle:
  assumes "resolve_kind len done k = Inr K" "K = OwnedHandle j \<or> K = BorrowedHandle j"
  shows "j < length done \<and> Kind (done ! j) = Resource"
  using assms
  by (cases k) (auto simp: resolve_kind_def Let_def andThen_Inr dest: resolve_handle_Inr)

lemma resolve_kind_of_handle:
  assumes "resolve_kind len done k = Inr K" "k = WOwn idx \<or> k = WBorrow idx"
  shows "0 \<le> idx \<and> nat idx < length done \<and> Kind (done ! nat idx) = Resource"
  using assms
  by (auto simp: resolve_kind_def Let_def andThen_Inr dest: resolve_handle_Inr)

lemma resolve_kind_Resource:
  assumes "resolve_kind len done k = Inr Resource"
  shows "k = WResource"
  using assms
  by (cases k) (auto simp: resolve_kind_def Let_def andThen_Inr)

lemma resolve_typedef_Kind:
  assumes "resolve_typedef doc done w = Inr td"
  shows "resolve_kind (length (types doc)) done (wkind w) = Inr (Kind td)"
  using assms by (auto simp: resolve_typedef_def andThen_Inr)

text \<open>What a successful materialization returns: the type definitions it started from,
  then one for each serialized one, resolved against those before it.\<close>

lemma materialize_Inr:
  assumes "materialize doc ws done = Inr g"
  shows "length g = length done + length ws \<and> take (length done) g = done
    \<and> (\<forall>k < length ws.
          resolve_typedef doc (take (length done + k) g) (ws ! k) = Inr (g ! (length done + k)))"
  using assms
proof (induction ws arbitrary: "done")
  case Nil
  then show ?case by simp
next
  case (Cons w ws)
  from Cons.prems obtain td where td: "resolve_typedef doc done w = Inr td"
    and rest: "materialize doc ws (done @ [td]) = Inr g"
    by (auto simp: andThen_Inr)
  note ih = Cons.IH [OF rest]
  from ih have len: "length g = length done + length (w # ws)" by simp
  from ih have tk: "take (Suc (length done)) g = done @ [td]" by simp
  have "take (length done) g = take (length done) (take (Suc (length done)) g)"
    by simp
  with tk have tk0: "take (length done) g = done" by simp
  have "g ! length done = take (Suc (length done)) g ! length done"
    by simp
  with tk have g0: "g ! length done = td" by simp
  have "resolve_typedef doc (take (length done + k) g) ((w # ws) ! k) = Inr (g ! (length done + k))"
    if "k < length (w # ws)" for k
  proof (cases k)
    case 0
    with td tk0 g0 show ?thesis by simp
  next
    case (Suc k')
    with that have "k' < length ws" by simp
    with ih Suc show ?thesis by simp
  qed
  with len tk0 show ?case by blast
qed

lemma resolve_Inr:
  assumes "resolve doc = Inr g"
  shows "length g = length (types doc)"
    and "i < length (types doc) \<Longrightarrow>
      resolve_kind (length (types doc)) (take i g) (wkind (types doc ! i)) = Inr (Kind (g ! i))"
proof -
  from assms have m: "materialize doc (types doc) [] = Inr g" by (simp add: resolve_def)
  from materialize_Inr [OF m] show "length g = length (types doc)" by simp
  assume "i < length (types doc)"
  with materialize_Inr [OF m] have "resolve_typedef doc (take i g) (types doc ! i) = Inr (g ! i)"
    by simp
  then show "resolve_kind (length (types doc)) (take i g) (wkind (types doc ! i)) = Inr (Kind (g ! i))"
    by (rule resolve_typedef_Kind)
qed

text \<open>
  C2. Handle invariant, on the resolution engine as the specification describes it.
  In every successfully resolved graph, every \<open>OwnedHandle\<close> and every
  \<open>BorrowedHandle\<close> references a type definition of the graph whose \<open>Kind\<close> is
  \<open>Resource\<close>. A serialized handle whose target is not a type definition of kind
  resource makes the resolution fail: the result is an error value, and no graph.
\<close>

theorem handle_invariant:
  "(resolve doc = Inr g \<and> i < length g
      \<and> (Kind (g ! i) = OwnedHandle j \<or> Kind (g ! i) = BorrowedHandle j)
    \<longrightarrow> j < length g \<and> Kind (g ! j) = Resource)
   \<and> (n < length (types doc)
      \<and> (wkind (types doc ! n) = WOwn t \<or> wkind (types doc ! n) = WBorrow t)
      \<and> \<not> (0 \<le> t \<and> nat t < length (types doc) \<and> wkind (types doc ! nat t) = WResource)
    \<longrightarrow> (\<exists>e. resolve doc = Inl e))"
proof (rule conjI; rule impI)
  assume a: "resolve doc = Inr g \<and> i < length g
      \<and> (Kind (g ! i) = OwnedHandle j \<or> Kind (g ! i) = BorrowedHandle j)"
  then have r: "resolve doc = Inr g" and i: "i < length (types doc)"
    using resolve_Inr(1) [of doc g] by simp_all
  from resolve_kind_handle [OF resolve_Inr(2) [OF r i]] a
  have "j < length (take i g)" "Kind (take i g ! j) = Resource" by blast+
  then show "j < length g \<and> Kind (g ! j) = Resource" by simp
next
  assume a: "n < length (types doc)
      \<and> (wkind (types doc ! n) = WOwn t \<or> wkind (types doc ! n) = WBorrow t)
      \<and> \<not> (0 \<le> t \<and> nat t < length (types doc) \<and> wkind (types doc ! nat t) = WResource)"
  show "\<exists>e. resolve doc = Inl e"
  proof (cases "resolve doc")
    case (Inl e)
    then show ?thesis by blast
  next
    case (Inr g)
    from a have n: "n < length (types doc)" by simp
    from resolve_kind_of_handle [OF resolve_Inr(2) [OF Inr n]] a
    have t: "0 \<le> t" "nat t < length (take n g)" "Kind (take n g ! nat t) = Resource" by blast+
    with n resolve_Inr(1) [OF Inr] have lt: "nat t < length (types doc)"
      and k: "Kind (g ! nat t) = Resource" by simp_all
    from resolve_Inr(2) [OF Inr lt] k have "wkind (types doc ! nat t) = WResource"
      by (simp add: resolve_kind_Resource)
    with a t(1) lt show ?thesis by blast
  qed
qed

theorem handle_invariant_witness:
  "resolve \<lparr>worlds = 0, interfaces = 1, types =
       [\<lparr>wname = Some ''pollable'', wkind = WResource, wowner = Some (WInterface 0), wdocs = []\<rparr>,
        \<lparr>wname = None, wkind = WOwn 0, wowner = None, wdocs = []\<rparr>,
        \<lparr>wname = None, wkind = WBorrow 0, wowner = None, wdocs = []\<rparr>]\<rparr>
     = Inr [\<lparr>TypeDef.Name = Some ''pollable'', Kind = Resource, Owner = Some (InterfaceOwner 0),
              Docs = \<lparr>Contents = []\<rparr>\<rparr>,
            \<lparr>TypeDef.Name = None, Kind = OwnedHandle 0, Owner = None, Docs = \<lparr>Contents = []\<rparr>\<rparr>,
            \<lparr>TypeDef.Name = None, Kind = BorrowedHandle 0, Owner = None, Docs = \<lparr>Contents = []\<rparr>\<rparr>]
   \<and> resolve \<lparr>worlds = 0, interfaces = 1, types =
       [\<lparr>wname = Some ''point'', wkind = WRecord [(''x'', PrimitiveName ''u32'', [])],
          wowner = Some (WInterface 0), wdocs = []\<rparr>,
        \<lparr>wname = None, wkind = WOwn 0, wowner = None, wdocs = []\<rparr>]\<rparr>
     = Inl (InvalidHandleTarget 1 0)
   \<and> (\<exists>e. resolve \<lparr>worlds = 0, interfaces = 1, types =
       [\<lparr>wname = Some ''point'', wkind = WRecord [(''x'', PrimitiveName ''u32'', [])],
          wowner = Some (WInterface 0), wdocs = []\<rparr>,
        \<lparr>wname = None, wkind = WOwn 0, wowner = None, wdocs = []\<rparr>]\<rparr> = Inl e)
   \<and> Kind ([\<lparr>TypeDef.Name = Some ''pollable'', Kind = Resource, Owner = Some (InterfaceOwner 0),
              Docs = \<lparr>Contents = []\<rparr>\<rparr>,
            \<lparr>TypeDef.Name = None, Kind = OwnedHandle 0, Owner = None, Docs = \<lparr>Contents = []\<rparr>\<rparr>,
            \<lparr>TypeDef.Name = None, Kind = BorrowedHandle 0, Owner = None, Docs = \<lparr>Contents = []\<rparr>\<rparr>]
           ! 0) = Resource"
proof -
  let ?good = "\<lparr>worlds = 0, interfaces = 1, types =
       [\<lparr>wname = Some ''pollable'', wkind = WResource, wowner = Some (WInterface 0), wdocs = []\<rparr>,
        \<lparr>wname = None, wkind = WOwn 0, wowner = None, wdocs = []\<rparr>,
        \<lparr>wname = None, wkind = WBorrow 0, wowner = None, wdocs = []\<rparr>]\<rparr>"
  let ?g = "[\<lparr>TypeDef.Name = Some ''pollable'', Kind = Resource, Owner = Some (InterfaceOwner 0),
              Docs = \<lparr>Contents = []\<rparr>\<rparr>,
            \<lparr>TypeDef.Name = None, Kind = OwnedHandle 0, Owner = None, Docs = \<lparr>Contents = []\<rparr>\<rparr>,
            \<lparr>TypeDef.Name = None, Kind = BorrowedHandle 0, Owner = None, Docs = \<lparr>Contents = []\<rparr>\<rparr>]"
  let ?bad = "\<lparr>worlds = 0, interfaces = 1, types =
       [\<lparr>wname = Some ''point'', wkind = WRecord [(''x'', PrimitiveName ''u32'', [])],
          wowner = Some (WInterface 0), wdocs = []\<rparr>,
        \<lparr>wname = None, wkind = WOwn 0, wowner = None, wdocs = []\<rparr>]\<rparr>"
  have good: "resolve ?good = Inr ?g" by code_simp
  have bad: "resolve ?bad = Inl (InvalidHandleTarget 1 0)" by code_simp
  have h1: "resolve ?good = Inr ?g \<and> 1 < length ?g
      \<and> (Kind (?g ! 1) = OwnedHandle 0 \<or> Kind (?g ! 1) = BorrowedHandle 0)"
    using good by simp
  have h2: "1 < length (types ?bad)
      \<and> (wkind (types ?bad ! 1) = WOwn 0 \<or> wkind (types ?bad ! 1) = WBorrow 0)
      \<and> \<not> (0 \<le> (0::int) \<and> nat 0 < length (types ?bad) \<and> wkind (types ?bad ! nat 0) = WResource)"
    by simp
  have c1: "Kind (?g ! 0) = Resource"
    using handle_invariant [of ?good ?g 1 0 1 0] h1 by blast
  have c2: "\<exists>e. resolve ?bad = Inl e"
    using handle_invariant [of ?bad ?g 1 0 1 0] h2 by blast
  from good bad c1 c2 show ?thesis by blast
qed

end
